theory Spec2Isabelle
  imports Main
begin

section \<open>Values exchanged with the outside world\<close>

text \<open>
  Request parameters, reply contexts, worker responses and metadata are JSON documents.
  A Python dict is an association list, looked up with \<open>map_of\<close>. Numbers are carried
  through the scheduler without being inspected.
\<close>

datatype json =
    JNull
  | JBool bool
  | JNum int
  | JStr string
  | JList "json list"
  | JObj "(string \<times> json) list"

text \<open>
  Python's \<open>Decimal\<close>: a coefficient and the number of fractional digits, so that
  \<open>Decimal("1.0")\<close> is \<open>Decimal 10 1\<close> and \<open>Decimal("0.5")\<close> is \<open>Decimal 5 1\<close>.
  Addition aligns the exponents, comparison is by value.
\<close>

datatype decimal = Decimal int nat

fun coefficient :: "decimal \<Rightarrow> int" where
  "coefficient (Decimal c d) = c"

fun fractional_digits :: "decimal \<Rightarrow> nat" where
  "fractional_digits (Decimal c d) = d"

fun dec_add :: "decimal \<Rightarrow> decimal \<Rightarrow> decimal" where
  "dec_add (Decimal a m) (Decimal b n) =
     Decimal (a * 10 ^ (max m n - m) + b * 10 ^ (max m n - n)) (max m n)"

fun dec_less :: "decimal \<Rightarrow> decimal \<Rightarrow> bool" where
  "dec_less (Decimal a m) (Decimal b n) = (a * 10 ^ n < b * 10 ^ m)"

fun dec_eq :: "decimal \<Rightarrow> decimal \<Rightarrow> bool" where
  "dec_eq (Decimal a m) (Decimal b n) = (a * 10 ^ n = b * 10 ^ m)"

definition dec_of_int :: "int \<Rightarrow> decimal" where
  "dec_of_int i = Decimal i 0"

text \<open>The exceptions that the handlers can meet.\<close>

datatype exn =
    HTTPException nat string
  | HTTPStatusError nat
  | TimeoutException
  | TransportError
  | JSONDecodeError
  | AttributeError
  | TypeError
  | PostgresSyntaxError
  | UniqueViolationError
  | StoreError

text \<open>
  \<open>str(e)\<close>: the text the library gives an exception. Only the fact that it is a function
  of the exception matters here; the texts stand for the library's own wording.
\<close>

fun str :: "exn \<Rightarrow> string" where
  "str (HTTPException c d) = d"
| "str (HTTPStatusError c) = ''HTTPStatusError''"
| "str TimeoutException = ''TimeoutException''"
| "str TransportError = ''TransportError''"
| "str JSONDecodeError = ''JSONDecodeError''"
| "str AttributeError = ''AttributeError''"
| "str TypeError = ''TypeError''"
| "str PostgresSyntaxError = ''PostgresSyntaxError''"
| "str UniqueViolationError = ''UniqueViolationError''"
| "str StoreError = ''StoreError''"

text \<open>\<open>d.get(key, default)\<close>: only a dict has the method.\<close>

fun py_get :: "json \<Rightarrow> string \<Rightarrow> json \<Rightarrow> exn + json" where
  "py_get (JObj kvs) k d = Inr (case map_of kvs k of None \<Rightarrow> d | Some v \<Rightarrow> v)"
| "py_get _ k d = Inl AttributeError"

text \<open>
  \<open>for x in v\<close>: a list yields its elements, a dict its keys, a string its characters;
  numbers, booleans and \<open>None\<close> are not iterable.
\<close>

fun py_iter :: "json \<Rightarrow> exn + json list" where
  "py_iter (JList xs) = Inr xs"
| "py_iter (JObj kvs) = Inr (map (\<lambda>kv. JStr (fst kv)) kvs)"
| "py_iter (JStr s) = Inr (map (\<lambda>c. JStr [c]) s)"
| "py_iter _ = Inl TypeError"

section \<open>The store (database.py)\<close>

datatype status = CREATED | QUEUED | RUNNING | COMPLETED | FAILED | CANCELLED

record plan =
  plan_id :: nat
  daily_token_limit :: int
  plan_priority :: int

record user =
  user_id :: nat
  platform :: string
  platform_user_id :: string
  ip_address :: "string option"
  user_plan_id :: nat

record job =
  job_id :: nat
  job_user_id :: nat
  frontend :: string
  bot_id :: "string option"
  capability :: string
  status :: status
  priority :: int
  params :: json
  cost_tokens :: decimal
  created_at :: nat
  queued_at :: "nat option"
  started_at :: "nat option"
  ended_at :: "nat option"
  worker_id :: "string option"
  execution_time_seconds :: "json option"
  error :: "(string \<times> string) option"
  metadata :: json

record artifact =
  artifact_id :: nat
  artifact_job_id :: nat
  artifact_type :: json
  local_path :: json
  public_url :: json
  artifact_metadata :: json
  format :: string

record usage =
  usage_user_id :: nat
  usage_date :: nat
  tokens_used :: decimal
  jobs_completed :: int

text \<open>
  The tables, in insertion order, and the sequences behind the \<open>RETURNING id\<close> of the
  three inserts.
\<close>

record db =
  plans :: "plan list"
  users :: "user list"
  jobs :: "job list"
  artifacts :: "artifact list"
  usage_daily :: "usage list"
  users_seq :: nat
  jobs_seq :: nat
  artifacts_seq :: nat

text \<open>The keyword arguments of \<open>update_job\<close>: one column and its new value each.\<close>

datatype job_field =
    Status status
  | Queued_at nat
  | Started_at nat
  | Worker_id string
  | Ended_at nat
  | Execution_time_seconds json
  | Metadata json
  | Error string string

fun set_field :: "job_field \<Rightarrow> job \<Rightarrow> job" where
  "set_field (Status s) j = j\<lparr>status := s\<rparr>"
| "set_field (Queued_at t) j = j\<lparr>queued_at := Some t\<rparr>"
| "set_field (Started_at t) j = j\<lparr>started_at := Some t\<rparr>"
| "set_field (Worker_id w) j = j\<lparr>worker_id := Some w\<rparr>"
| "set_field (Ended_at t) j = j\<lparr>ended_at := Some t\<rparr>"
| "set_field (Execution_time_seconds x) j = j\<lparr>execution_time_seconds := Some x\<rparr>"
| "set_field (Metadata m) j = j\<lparr>metadata := m\<rparr>"
| "set_field (Error c m) j = j\<lparr>error := Some (c, m)\<rparr>"

text \<open>
  \<open>update_job(job_id, **kwargs)\<close> runs \<open>UPDATE jobs SET k = v, ... WHERE id = $1\<close>: every
  row with that id takes the new values, whatever it held; nothing is returned. With no
  keyword argument the statement has an empty SET list and the server rejects it.
\<close>

definition update_job :: "nat \<Rightarrow> job_field list \<Rightarrow> db \<Rightarrow> exn + db" where
  "update_job jid kwargs d =
     (if kwargs = [] then Inl PostgresSyntaxError
      else Inr (d\<lparr>jobs := map (\<lambda>j. if job_id j = jid then fold set_field kwargs j else j)
                                (jobs d)\<rparr>))"

text \<open>The argument of \<open>create_artifact\<close>: the five keys its only caller builds.\<close>

record artifact_data =
  data_job_id :: nat
  data_type :: json
  data_path :: json
  data_url :: json
  data_metadata :: json

definition create_artifact :: "artifact_data \<Rightarrow> db \<Rightarrow> nat \<times> db" where
  "create_artifact a d =
     (let new_id = Suc (artifacts_seq d) in
      (new_id,
       d\<lparr>artifacts := artifacts d @
            [\<lparr>artifact_id = new_id, artifact_job_id = data_job_id a,
              artifact_type = data_type a, local_path = data_path a,
              public_url = data_url a, artifact_metadata = data_metadata a,
              format = ''png''\<rparr>],
          artifacts_seq := new_id\<rparr>))"


text \<open>
  \<open>get_or_create_user\<close>: the user joined with its plan. A user without a matching plan
  row is not seen by the join. The uniqueness of \<open>(platform, platform_user_id)\<close> is the
  table's constraint; the insert of the default plan 1 violates it when the user exists
  without a plan row.
\<close>

definition user_with_plan :: "(user \<Rightarrow> bool) \<Rightarrow> db \<Rightarrow> (user \<times> plan) option" where
  "user_with_plan sel d =
     (case filter sel (users d) of
        [] \<Rightarrow> None
      | u # _ \<Rightarrow>
          (case filter (\<lambda>p. plan_id p = user_plan_id u) (plans d) of
             [] \<Rightarrow> None
           | p # _ \<Rightarrow> Some (u, p)))"

definition get_or_create_user ::
  "string \<Rightarrow> string \<Rightarrow> string option \<Rightarrow> db \<Rightarrow> (exn + (user \<times> plan) option) \<times> db" where
  "get_or_create_user pf uid ip d =
     (case user_with_plan (\<lambda>u. platform u = pf \<and> platform_user_id u = uid) d of
        Some row \<Rightarrow> (Inr (Some row), d)
      | None \<Rightarrow>
          if list_ex (\<lambda>u. platform u = pf \<and> platform_user_id u = uid) (users d)
          then (Inl UniqueViolationError, d)
          else
            (let new_id = Suc (users_seq d);
                 d' = d\<lparr>users := users d @
                           [\<lparr>user_id = new_id, platform = pf, platform_user_id = uid,
                             ip_address = ip, user_plan_id = 1\<rparr>],
                        users_seq := new_id\<rparr>
             in (Inr (user_with_plan (\<lambda>u. user_id u = new_id) d'), d')))"

text \<open>
  \<open>get_usage\<close> returns the day's row as the driver's \<open>Record\<close>, or, when there is
  none, an instance of the local class \<open>Usage\<close>, whose class attribute \<open>tokens_used\<close>
  is 0.
\<close>

datatype usage_object = Usage | Record usage

definition get_usage :: "nat \<Rightarrow> nat \<Rightarrow> db \<Rightarrow> usage_object" where
  "get_usage uid day d =
     (case filter (\<lambda>r. usage_user_id r = uid \<and> usage_date r = day) (usage_daily d) of
        [] \<Rightarrow> Usage
      | r # _ \<Rightarrow> Record r)"

text \<open>
  The attribute access \<open>usage_today.tokens_used\<close>. The pool is created without a
  \<open>record_class\<close>, and the driver's \<open>Record\<close> gives its columns by subscript and by
  \<open>.get\<close> only: reading a column as an attribute raises \<open>AttributeError\<close>.
\<close>

fun getattr_tokens_used :: "usage_object \<Rightarrow> exn + decimal" where
  "getattr_tokens_used Usage = Inr (dec_of_int 0)"
| "getattr_tokens_used (Record r) = Inl AttributeError"

text \<open>
  The argument of the store's \<open>create_job\<close>, as the admission handler builds it. The
  insert writes \<open>reply_context\<close> into the \<open>metadata\<close> column.
\<close>

record job_data =
  jd_user_id :: nat
  jd_frontend :: string
  jd_bot_id :: "string option"
  jd_capability :: string
  jd_status :: status
  jd_priority :: int
  jd_params :: json
  jd_cost_tokens :: decimal
  jd_reply_context :: json
  jd_created_at :: nat

definition db_create_job :: "job_data \<Rightarrow> db \<Rightarrow> nat \<times> db" where
  "db_create_job jd d =
     (let new_id = Suc (jobs_seq d) in
      (new_id,
       d\<lparr>jobs := jobs d @
            [\<lparr>job_id = new_id, job_user_id = jd_user_id jd, frontend = jd_frontend jd,
              bot_id = jd_bot_id jd, capability = jd_capability jd, status = jd_status jd,
              priority = jd_priority jd, params = jd_params jd,
              cost_tokens = jd_cost_tokens jd, created_at = jd_created_at jd,
              queued_at = None, started_at = None, ended_at = None, worker_id = None,
              execution_time_seconds = None, error = None,
              metadata = jd_reply_context jd\<rparr>],
          jobs_seq := new_id\<rparr>))"

text \<open>
  \<open>count_queued_jobs_before\<close>: a comparison with the result of the scalar subquery is
  never true when the subquery finds no row.
\<close>

definition count_queued_jobs_before :: "nat \<Rightarrow> int \<Rightarrow> db \<Rightarrow> nat" where
  "count_queued_jobs_before jid p d =
     length (filter (\<lambda>j. status j = QUEUED \<and>
                (priority j > p \<or>
                 (priority j = p \<and>
                  (case filter (\<lambda>k. job_id k = jid) (jobs d) of
                     [] \<Rightarrow> False
                   | k # _ \<Rightarrow> created_at j < created_at k))))
             (jobs d))"

text \<open>
  \<open>get_next_queued_job\<close>: the QUEUED rows of one priority, ordered by \<open>created_at\<close>,
  the first of them. Among rows of equal \<open>created_at\<close> the earliest inserted is taken.
  The \<open>capability\<close> argument does not occur in the query.
\<close>

fun oldest :: "job \<Rightarrow> job list \<Rightarrow> job" where
  "oldest b [] = b"
| "oldest b (j # js) = oldest (if created_at j < created_at b then j else b) js"

definition get_next_queued_job :: "int \<Rightarrow> string list \<Rightarrow> db \<Rightarrow> job option" where
  "get_next_queued_job p cap d =
     (case filter (\<lambda>j. status j = QUEUED \<and> priority j = p) (jobs d) of
        [] \<Rightarrow> None
      | j # js \<Rightarrow> Some (oldest j js))"

text \<open>\<open>update_usage\<close>: insert, or add to the row of the same user and day.\<close>

definition update_usage :: "nat \<Rightarrow> nat \<Rightarrow> decimal \<Rightarrow> int \<Rightarrow> db \<Rightarrow> db" where
  "update_usage uid day tokens n d =
     (if list_ex (\<lambda>r. usage_user_id r = uid \<and> usage_date r = day) (usage_daily d)
      then d\<lparr>usage_daily :=
               map (\<lambda>r. if usage_user_id r = uid \<and> usage_date r = day
                        then r\<lparr>tokens_used := dec_add (tokens_used r) tokens,
                               jobs_completed := jobs_completed r + n\<rparr>
                        else r)
                   (usage_daily d)\<rparr>
      else d\<lparr>usage_daily := usage_daily d @
               [\<lparr>usage_user_id = uid, usage_date = day, tokens_used = tokens,
                 jobs_completed = n\<rparr>]\<rparr>)"

definition get_user :: "nat \<Rightarrow> db \<Rightarrow> user option" where
  "get_user uid d =
     (case filter (\<lambda>u. user_id u = uid) (users d) of [] \<Rightarrow> None | u # _ \<Rightarrow> Some u)"

text \<open>\<open>datetime.utcnow().date()\<close>, with time counted in seconds.\<close>

definition date_of :: "nat \<Rightarrow> nat" where
  "date_of now = now div 86400"


section \<open>The worker registry and the dispatcher (scheduler.py)\<close>

datatype worker_status = idle | busy

record WorkerProxy =
  proxy_id :: string
  base_url :: string
  capabilities :: "string list"
  proxy_status :: worker_status
  loaded_models :: "json list"
  last_heartbeat :: nat

text \<open>\<open>WorkerProxy.__init__\<close>, with the clock's reading as an argument.\<close>

definition WorkerProxy_init :: "nat \<Rightarrow> string \<Rightarrow> string \<Rightarrow> string list \<Rightarrow> WorkerProxy" where
  "WorkerProxy_init now wid url caps =
     \<lparr>proxy_id = wid, base_url = url, capabilities = caps, proxy_status = idle,
      loaded_models = [], last_heartbeat = now\<rparr>"

definition is_healthy :: "nat \<Rightarrow> WorkerProxy \<Rightarrow> bool" where
  "is_healthy now w = (int now - int (last_heartbeat w) < 60)"

text \<open>
  What the network answers to a POST: a response with its status code and its body
  (\<open>None\<close> when the body is not JSON), or no response.
\<close>

datatype http_result = Response nat "json option" | Timeout | ConnectError

type_synonym network = "string \<Rightarrow> json \<Rightarrow> nat \<Rightarrow> http_result"

definition run_job :: "network \<Rightarrow> WorkerProxy \<Rightarrow> json \<Rightarrow> nat \<Rightarrow> exn + json" where
  "run_job post w payload timeout =
     (case post (base_url w @ ''/worker/run_job'') payload (timeout + 10) of
        Timeout \<Rightarrow> Inl TimeoutException
      | ConnectError \<Rightarrow> Inl TransportError
      | Response code body \<Rightarrow>
          if 200 \<le> code \<and> code < 300
          then (case body of None \<Rightarrow> Inl JSONDecodeError | Some v \<Rightarrow> Inr v)
          else Inl (HTTPStatusError code))"

text \<open>
  \<open>WorkerManager.workers\<close> is a dict: assigning to a key that is present replaces the
  value in place, a new key goes to the end; \<open>all()\<close> iterates in that order.
\<close>

fun dict_set :: "'k \<Rightarrow> 'v \<Rightarrow> ('k \<times> 'v) list \<Rightarrow> ('k \<times> 'v) list" where
  "dict_set k v [] = [(k, v)]"
| "dict_set k v (kv # kvs) = (if fst kv = k then (k, v) # kvs else kv # dict_set k v kvs)"

type_synonym WorkerManager = "(string \<times> WorkerProxy) list"

definition register_worker ::
  "nat \<Rightarrow> string \<Rightarrow> string \<Rightarrow> string list \<Rightarrow> WorkerManager \<Rightarrow> WorkerManager" where
  "register_worker now wid url caps workers =
     dict_set wid (WorkerProxy_init now wid url caps) workers"

definition find_idle_worker :: "nat \<Rightarrow> WorkerManager \<Rightarrow> WorkerProxy option" where
  "find_idle_worker now workers =
     find (\<lambda>w. proxy_status w = idle \<and> is_healthy now w) (map snd workers)"

text \<open>\<open>select_next_job\<close>: the first tier of 3, 2, 1, 0 in which the store finds a job.\<close>

fun first_job :: "int list \<Rightarrow> string list \<Rightarrow> db \<Rightarrow> job option" where
  "first_job [] caps d = None"
| "first_job (p # ps) caps d =
     (case get_next_queued_job p caps d of Some j \<Rightarrow> Some j | None \<Rightarrow> first_job ps caps d)"

definition select_next_job :: "WorkerProxy \<Rightarrow> db \<Rightarrow> job option" where
  "select_next_job worker d = first_job [3, 2, 1, 0] (capabilities worker) d"

text \<open>
  A store call made by the dispatcher can raise (connection lost, statement rejected).
  Which of the successive store calls of one dispatch raise is an input: a list of
  booleans, one per call, \<open>True\<close> for a call that raises; past its end every call
  goes through.
\<close>

type_synonym faults = "bool list"

definition raises :: "faults \<Rightarrow> bool" where
  "raises fs = (case fs of [] \<Rightarrow> False | f # _ \<Rightarrow> f)"

definition call_update_job ::
  "faults \<Rightarrow> nat \<Rightarrow> job_field list \<Rightarrow> db \<Rightarrow> (exn + unit) \<times> faults \<times> db" where
  "call_update_job fs jid kwargs d =
     (if raises fs then (Inl StoreError, tl fs, d)
      else case update_job jid kwargs d of
             Inl e \<Rightarrow> (Inl e, tl fs, d)
           | Inr d' \<Rightarrow> (Inr (), tl fs, d'))"

text \<open>
  The artifact record built from one element of the response's \<open>artifacts\<close>: four
  \<open>.get\<close> calls, which only a dict answers.
\<close>

fun artifact_record :: "job \<Rightarrow> json \<Rightarrow> exn + artifact_data" where
  "artifact_record j (JObj kvs) =
     Inr \<lparr>data_job_id = job_id j,
          data_type = (case map_of kvs ''type'' of None \<Rightarrow> JStr ''image'' | Some v \<Rightarrow> v),
          data_path = (case map_of kvs ''path'' of None \<Rightarrow> JNull | Some v \<Rightarrow> v),
          data_url = (case map_of kvs ''url'' of None \<Rightarrow> JNull | Some v \<Rightarrow> v),
          data_metadata = (case map_of kvs ''metadata'' of None \<Rightarrow> JObj [] | Some v \<Rightarrow> v)\<rparr>"
| "artifact_record j _ = Inl AttributeError"

text \<open>The loop of \<open>handle_job_completion\<close> over the artifacts, collecting the new ids.\<close>

fun save_artifacts ::
  "faults \<Rightarrow> job \<Rightarrow> json list \<Rightarrow> nat list \<Rightarrow> db \<Rightarrow> (exn + nat list) \<times> faults \<times> db" where
  "save_artifacts fs j [] artifact_ids d = (Inr artifact_ids, fs, d)"
| "save_artifacts fs j (a # as) artifact_ids d =
     (case artifact_record j a of
        Inl e \<Rightarrow> (Inl e, fs, d)
      | Inr rec \<Rightarrow>
          if raises fs then (Inl StoreError, tl fs, d)
          else (case create_artifact rec d of
                  (new_id, d') \<Rightarrow> save_artifacts (tl fs) j as (artifact_ids @ [new_id]) d'))"

definition handle_job_completion ::
  "faults \<Rightarrow> nat \<Rightarrow> job \<Rightarrow> json \<Rightarrow> db \<Rightarrow> (exn + unit) \<times> faults \<times> db" where
  "handle_job_completion fs now j response d =
     (case py_get response ''artifacts'' (JList []) of
        Inl e \<Rightarrow> (Inl e, fs, d)
      | Inr artifacts_data \<Rightarrow>
     (case py_get response ''execution_time_seconds'' (JNum 0) of
        Inl e \<Rightarrow> (Inl e, fs, d)
      | Inr execution_time \<Rightarrow>
     (case py_iter artifacts_data of
        Inl e \<Rightarrow> (Inl e, fs, d)
      | Inr items \<Rightarrow>
     (case save_artifacts fs j items [] d of
        (Inl e, fs1, d1) \<Rightarrow> (Inl e, fs1, d1)
      | (Inr artifact_ids, fs1, d1) \<Rightarrow>
     (case call_update_job fs1 (job_id j)
             [Status COMPLETED, Ended_at now, Execution_time_seconds execution_time,
              Metadata (JObj [(''artifact_ids'', JList (map (\<lambda>i. JNum (int i)) artifact_ids))])]
             d1 of
        (Inl e, fs2, d2) \<Rightarrow> (Inl e, fs2, d2)
      | (Inr u, fs2, d2) \<Rightarrow>
          if raises fs2 then (Inl StoreError, tl fs2, d2)
          else (case get_user (job_user_id j) d2 of
                  None \<Rightarrow> (Inl TypeError, tl fs2, d2)
                | Some usr \<Rightarrow>
                    if raises (tl fs2) then (Inl StoreError, tl (tl fs2), d2)
                    else (Inr (), tl (tl fs2),
                          update_usage (user_id usr) (date_of now) (cost_tokens j) 1 d2)))))))"

definition handle_job_failure ::
  "faults \<Rightarrow> nat \<Rightarrow> job \<Rightarrow> string \<Rightarrow> string \<Rightarrow> db \<Rightarrow> (exn + unit) \<times> faults \<times> db" where
  "handle_job_failure fs now j error_code message d =
     call_update_job fs (job_id j) [Status FAILED, Ended_at now, Error error_code message] d"

text \<open>\<open>str(job['id'])\<close>: the decimal digits of the id.\<close>

fun digit_char :: "nat \<Rightarrow> char" where
  "digit_char n = char_of (48 + n)"

function string_of_nat :: "nat \<Rightarrow> string" where
  "string_of_nat n =
     (if n < 10 then [digit_char n] else string_of_nat (n div 10) @ [digit_char (n mod 10)])"
  by pat_completeness auto
termination
  by (relation "measure id") auto

declare string_of_nat.simps [simp del]

definition job_payload :: "job \<Rightarrow> json" where
  "job_payload j =
     JObj [(''job_id'', JStr (string_of_nat (job_id j))),
           (''params'', params j),
           (''timeout_seconds'', JNum 300)]"

text \<open>
  \<open>dispatch_job\<close>. The worker object is marked busy and the job row set to RUNNING
  before the \<open>try\<close>; the request to the worker and the completion handling are inside
  it, every exception of theirs goes to \<open>handle_job_failure\<close>, and the \<open>finally\<close>
  marks the worker idle. The result is what the task ends with (an exception that
  escapes, or nothing), the worker object and the store.
\<close>

definition dispatch_job ::
  "faults \<Rightarrow> nat \<Rightarrow> network \<Rightarrow> WorkerProxy \<Rightarrow> job \<Rightarrow> db \<Rightarrow> (exn + unit) \<times> WorkerProxy \<times> db" where
  "dispatch_job fs now post worker j d =
     (let worker1 = worker\<lparr>proxy_status := busy\<rparr> in
      case call_update_job fs (job_id j)
             [Status RUNNING, Started_at now, Worker_id (proxy_id worker)] d of
        (Inl e, fs1, d1) \<Rightarrow> (Inl e, worker1, d1)
      | (Inr u, fs1, d1) \<Rightarrow>
          (let payload = job_payload j;
               outcome =
                 (case run_job post worker1 payload 310 of
                    Inl e \<Rightarrow> handle_job_failure fs1 now j ''DISPATCH_ERROR'' (str e) d1
                  | Inr response \<Rightarrow>
                      (case handle_job_completion fs1 now j response d1 of
                         (Inl e, fs2, d2) \<Rightarrow>
                           handle_job_failure fs2 now j ''DISPATCH_ERROR'' (str e) d2
                       | (Inr v, fs2, d2) \<Rightarrow> (Inr v, fs2, d2)))
           in (fst outcome, worker1\<lparr>proxy_status := idle\<rparr>, snd (snd outcome))))"


section \<open>Admission (main.py)\<close>

record JobRequest =
  req_frontend :: string
  req_bot_id :: "string option"
  req_capability :: string
  user_ref :: string
  req_params :: "(string \<times> json) list"
  reply_context :: "json option"

record JobResponse =
  resp_job_id :: string
  resp_status :: string
  estimated_time_seconds :: int
  resp_cost_tokens :: decimal
  queue_position :: nat

text \<open>\<open>calculate_token_cost\<close> reads the \<open>capability\<close> entry of the dict it is given.\<close>

definition calculate_token_cost :: "(string \<times> json) list \<Rightarrow> decimal" where
  "calculate_token_cost ps =
     (if map_of ps ''capability'' = Some (JStr ''image'') then Decimal 10 1 else Decimal 5 1)"

definition estimate_job_time :: "nat \<Rightarrow> int" where
  "estimate_job_time queue_pos = (int queue_pos + 1) * 20"

text \<open>\<open>s.split(":")[-1]\<close>: what follows the last colon, or all of \<open>s\<close>.\<close>

definition last_segment :: "string \<Rightarrow> string" where
  "last_segment s = rev (takeWhile (\<lambda>c. c \<noteq> CHR '':'') (rev s))"

text \<open>
  The handler of \<open>POST /api/v1/jobs\<close>, under an available store. The user row is read
  by subscript and by \<open>.get\<close>; subscripting the \<open>None\<close> that \<open>get_or_create_user\<close>
  returns when plan 1 is missing raises. The usage is read as an attribute, in the
  comparison of the quota check. The result is the response or the exception, and the
  store as the handler leaves it.
\<close>

definition create_job :: "nat \<Rightarrow> JobRequest \<Rightarrow> db \<Rightarrow> (exn + JobResponse) \<times> db" where
  "create_job now request d =
     (case get_or_create_user (req_frontend request) (last_segment (user_ref request)) None d of
        (Inl e, d1) \<Rightarrow> (Inl e, d1)
      | (Inr None, d1) \<Rightarrow> (Inl TypeError, d1)
      | (Inr (Some (usr, pl)), d1) \<Rightarrow>
          (let usage_today = get_usage (user_id usr) (date_of now) d1;
               limit = daily_token_limit pl;
               cost = calculate_token_cost (req_params request)
           in case getattr_tokens_used usage_today of
                Inl e \<Rightarrow> (Inl e, d1)
              | Inr used \<Rightarrow>
              if dec_less (dec_of_int limit) (dec_add used cost)
              then (Inl (HTTPException 402 ''Insufficient quota''), d1)
              else
                (let jd = \<lparr>jd_user_id = user_id usr, jd_frontend = req_frontend request,
                           jd_bot_id = req_bot_id request,
                           jd_capability = req_capability request, jd_status = CREATED,
                           jd_priority = plan_priority pl,
                           jd_params = JObj (req_params request), jd_cost_tokens = cost,
                           jd_reply_context =
                             (case reply_context request of None \<Rightarrow> JNull | Some c \<Rightarrow> c),
                           jd_created_at = now\<rparr>
                 in case db_create_job jd d1 of
                      (new_id, d2) \<Rightarrow>
                        (case update_job new_id [Status QUEUED, Queued_at now] d2 of
                           Inl e \<Rightarrow> (Inl e, d2)
                         | Inr d3 \<Rightarrow>
                             (let queue_pos = count_queued_jobs_before new_id (jd_priority jd) d3
                              in (Inr \<lparr>resp_job_id = string_of_nat new_id,
                                       resp_status = ''QUEUED'',
                                       estimated_time_seconds = estimate_job_time queue_pos,
                                       resp_cost_tokens = cost,
                                       queue_position = queue_pos\<rparr>,
                                  d3))))))"


section \<open>Example data\<close>

text \<open>
  A store seeded with the free plan and one Telegram user, jobs as the admission handler
  leaves them, a freshly registered worker, and a network that gives one fixed answer.
\<close>

definition example_job :: "nat \<Rightarrow> string \<Rightarrow> int \<Rightarrow> nat \<Rightarrow> status \<Rightarrow> job" where
  "example_job i cap p t s =
     \<lparr>job_id = i, job_user_id = 1, frontend = ''telegram'', bot_id = Some ''tg-bot-1'',
      capability = cap, status = s, priority = p,
      params = JObj [(''capability'', JStr cap), (''prompt'', JStr ''cat'')],
      cost_tokens = Decimal 10 1, created_at = t, queued_at = Some t, started_at = None,
      ended_at = None, worker_id = None, execution_time_seconds = None, error = None,
      metadata = JNull\<rparr>"

definition example_db :: "job list \<Rightarrow> db" where
  "example_db js =
     \<lparr>plans = [\<lparr>plan_id = 1, daily_token_limit = 20, plan_priority = 0\<rparr>],
      users = [\<lparr>user_id = 1, platform = ''telegram'', platform_user_id = ''42'',
                ip_address = None, user_plan_id = 1\<rparr>],
      jobs = js, artifacts = [], usage_daily = [],
      users_seq = 1, jobs_seq = length js, artifacts_seq = 0\<rparr>"

definition example_worker :: "string \<Rightarrow> string list \<Rightarrow> WorkerProxy" where
  "example_worker wid caps = WorkerProxy_init 0 wid ''http://localhost:9000'' caps"

definition answers :: "http_result \<Rightarrow> network" where
  "answers r = (\<lambda>url payload timeout. r)"

lemmas ex_defs = example_job_def example_db_def example_worker_def answers_def WorkerProxy_init_def


definition failed_body :: json where
  "failed_body =
     JObj [(''status'', JStr ''failed''), (''job_id'', JStr ''1''),
           (''execution_time_seconds'', JNum 3), (''artifacts'', JList []),
           (''error'', JObj [(''code'', JStr ''OOM''), (''message'', JStr ''out of memory'')])]"

definition completed_body :: json where
  "completed_body =
     JObj [(''status'', JStr ''completed''), (''job_id'', JStr ''1''),
           (''execution_time_seconds'', JNum 3), (''artifacts'', JList [])]"

text \<open>The store after the user's jobs of the day have used the 20 tokens of the free plan.\<close>

definition full_usage_db :: db where
  "full_usage_db =
     (example_db [])\<lparr>usage_daily :=
        [\<lparr>usage_user_id = 1, usage_date = 0, tokens_used = Decimal 200 1,
          jobs_completed = 20\<rparr>]\<rparr>"

text \<open>The store after a dispatch that the worker answers with \<open>completed_body\<close>.\<close>

definition dispatched :: "nat \<Rightarrow> WorkerProxy \<Rightarrow> job \<Rightarrow> db \<Rightarrow> db" where
  "dispatched now w j d =
     snd (snd (dispatch_job [] now (answers (Response 200 (Some completed_body))) w j d))"

definition video_request :: JobRequest where
  "video_request =
     \<lparr>req_frontend = ''telegram'', req_bot_id = Some ''tg-bot-1'', req_capability = ''video'',
      user_ref = ''telegram:42'',
      req_params = [(''capability'', JStr ''video''), (''prompt'', JStr ''cat'')],
      reply_context = None\<rparr>"

lemmas eval_defs = select_next_job_def get_next_queued_job_def dispatch_job_def call_update_job_def
  raises_def update_job_def run_job_def handle_job_completion_def handle_job_failure_def
  get_user_def update_usage_def job_payload_def date_of_def create_job_def get_or_create_user_def
  user_with_plan_def get_usage_def calculate_token_cost_def db_create_job_def
  count_queued_jobs_before_def dec_of_int_def last_segment_def estimate_job_time_def
  register_worker_def create_artifact_def

section \<open>Facts about the registry and the selection\<close>

lemma map_of_dict_set_same: "map_of (dict_set k v kvs) k = Some v"
  by (induction kvs) auto

lemma map_of_dict_set_other: "k' \<noteq> k \<Longrightarrow> map_of (dict_set k v kvs) k' = map_of kvs k'"
  by (induction kvs) auto







lemma get_next_queued_job_None:
  "get_next_queued_job p caps d = None \<longleftrightarrow> (\<forall>k \<in> set (jobs d). \<not> (status k = QUEUED \<and> priority k = p))"
proof -
  let ?P = "\<lambda>j. status j = QUEUED \<and> priority j = p"
  have "get_next_queued_job p caps d = None \<longleftrightarrow> filter ?P (jobs d) = []"
    by (simp add: get_next_queued_job_def split: list.splits)
  then show ?thesis by (simp add: filter_empty_conv)
qed

lemma select_next_job_finds:
  assumes "k \<in> set (jobs d)" "status k = QUEUED" "priority k \<in> {0, 1, 2, 3}"
  shows "select_next_job w d \<noteq> None"
proof
  assume "select_next_job w d = None"
  then have "\<forall>p \<in> {0, 1, 2, 3}. get_next_queued_job p (capabilities w) d = None"
    by (auto simp: select_next_job_def split: option.splits)
  then have "\<forall>p \<in> {0, 1, 2, 3}. \<not> (status k = QUEUED \<and> priority k = p)"
    using assms(1) unfolding get_next_queued_job_None by blast
  with assms(2,3) show False by blast
qed



text \<open>
  One image worker and the queued image jobs A (id 1, priority 0, created at 1), B (id 2,
  priority 2, created at 2) and C (id 3, priority 2, created at 3): when each dispatch is
  over before the next selection, the selections are B, C, A and then nothing.
\<close>

lemma dispatch_order_example:
  "select_next_job (example_worker ''w-img'' [''image''])
       (example_db [example_job 1 ''image'' 0 1 QUEUED, example_job 2 ''image'' 2 2 QUEUED,
                    example_job 3 ''image'' 2 3 QUEUED])
     = Some (example_job 2 ''image'' 2 2 QUEUED) \<and>
   select_next_job (example_worker ''w-img'' [''image''])
       (dispatched 5 (example_worker ''w-img'' [''image'']) (example_job 2 ''image'' 2 2 QUEUED)
       (example_db [example_job 1 ''image'' 0 1 QUEUED, example_job 2 ''image'' 2 2 QUEUED,
                    example_job 3 ''image'' 2 3 QUEUED]))
     = Some (example_job 3 ''image'' 2 3 QUEUED) \<and>
   select_next_job (example_worker ''w-img'' [''image''])
       (dispatched 6 (example_worker ''w-img'' [''image'']) (example_job 3 ''image'' 2 3 QUEUED)
       (dispatched 5 (example_worker ''w-img'' [''image'']) (example_job 2 ''image'' 2 2 QUEUED)
       (example_db [example_job 1 ''image'' 0 1 QUEUED, example_job 2 ''image'' 2 2 QUEUED,
                    example_job 3 ''image'' 2 3 QUEUED])))
     = Some (example_job 1 ''image'' 0 1 QUEUED) \<and>
   select_next_job (example_worker ''w-img'' [''image''])
       (dispatched 7 (example_worker ''w-img'' [''image'']) (example_job 1 ''image'' 0 1 QUEUED)
       (dispatched 6 (example_worker ''w-img'' [''image'']) (example_job 3 ''image'' 2 3 QUEUED)
       (dispatched 5 (example_worker ''w-img'' [''image'']) (example_job 2 ''image'' 2 2 QUEUED)
       (example_db [example_job 1 ''image'' 0 1 QUEUED, example_job 2 ''image'' 2 2 QUEUED,
                    example_job 3 ''image'' 2 3 QUEUED]))))
     = None"
  by (simp add: eval_defs ex_defs dispatched_def completed_body_def)

section \<open>Facts about admission\<close>

lemma get_or_create_user_keeps:
  "jobs (snd (get_or_create_user pf uid ip d)) = jobs d \<and>
   usage_daily (snd (get_or_create_user pf uid ip d)) = usage_daily d"
  by (simp add: get_or_create_user_def Let_def split: option.splits)

text \<open>Without a user row joined with its plan, the handler ends with an exception.\<close>

lemma create_job_without_user:
  assumes "\<forall>u p. fst (get_or_create_user (req_frontend r) (last_segment (user_ref r)) None d)
              \<noteq> Inr (Some (u, p))"
  shows "(\<exists>e. fst (create_job now r d) = Inl e) \<and> jobs (snd (create_job now r d)) = jobs d \<and>
         usage_daily (snd (create_job now r d)) = usage_daily d"
proof -
  obtain res d1
    where g: "get_or_create_user (req_frontend r) (last_segment (user_ref r)) None d = (res, d1)"
    by (cases "get_or_create_user (req_frontend r) (last_segment (user_ref r)) None d")
  have keep: "jobs d1 = jobs d \<and> usage_daily d1 = usage_daily d"
    using get_or_create_user_keeps [of "req_frontend r" "last_segment (user_ref r)" None d] g
    by simp
  have "res = Inr None \<or> (\<exists>e. res = Inl e)"
  proof (cases res)
    case (Inl e)
    then show ?thesis by simp
  next
    case (Inr b)
    have "b = None"
    proof (cases b)
      case None
      then show ?thesis .
    next
      case (Some a)
      obtain u p where "a = (u, p)" by (cases a)
      with Some Inr assms g show ?thesis by simp
    qed
    with Inr show ?thesis by simp
  qed
  then show ?thesis using keep g
    by (auto simp: create_job_def)
qed

text \<open>
  With a usage row for the day, whatever it holds, the handler ends with
  \<open>AttributeError\<close> and creates no job.
\<close>

lemma create_job_with_usage_row:
  assumes "get_or_create_user (req_frontend r) (last_segment (user_ref r)) None d
             = (Inr (Some (u, p)), d1)"
    and "get_usage (user_id u) (date_of now) d = Record row"
  shows "create_job now r d = (Inl AttributeError, d1) \<and> jobs d1 = jobs d \<and>
         usage_daily d1 = usage_daily d"
proof -
  have keep: "jobs d1 = jobs d \<and> usage_daily d1 = usage_daily d"
    using get_or_create_user_keeps [of "req_frontend r" "last_segment (user_ref r)" None d] assms(1)
    by simp
  have u: "get_usage (user_id u) (date_of now) d1 = Record row"
    using keep assms(2) by (simp add: get_usage_def)
  show ?thesis
    using keep by (simp add: create_job_def assms(1) u)
qed

text \<open>
  Without a usage row for the day the usage counts as 0: the request is refused with 402
  when the cost alone exceeds the limit, and creates one job otherwise.
\<close>

lemma create_job_without_usage_row:
  assumes "get_or_create_user (req_frontend r) (last_segment (user_ref r)) None d
             = (Inr (Some (u, p)), d1)"
    and "get_usage (user_id u) (date_of now) d = Usage"
  shows "(dec_less (dec_of_int (daily_token_limit p))
                   (dec_add (dec_of_int 0) (calculate_token_cost (req_params r)))
            \<longrightarrow> create_job now r d = (Inl (HTTPException 402 ''Insufficient quota''), d1) \<and>
                jobs d1 = jobs d) \<and>
         (\<not> dec_less (dec_of_int (daily_token_limit p))
                     (dec_add (dec_of_int 0) (calculate_token_cost (req_params r)))
            \<longrightarrow> (\<exists>resp. fst (create_job now r d) = Inr resp \<and>
                        resp_cost_tokens resp = calculate_token_cost (req_params r) \<and>
                        resp_status resp = ''QUEUED'') \<and>
                length (jobs (snd (create_job now r d))) = Suc (length (jobs d)))"
proof -
  have keep: "jobs d1 = jobs d \<and> usage_daily d1 = usage_daily d"
    using get_or_create_user_keeps [of "req_frontend r" "last_segment (user_ref r)" None d] assms(1)
    by simp
  have u: "get_usage (user_id u) (date_of now) d1 = Usage"
    using keep assms(2) by (simp add: get_usage_def)
  show ?thesis
    using keep by (simp add: create_job_def assms(1) u Let_def db_create_job_def update_job_def)
qed

section \<open>Facts about the dispatcher\<close>

text \<open>
  The request to the worker raises on a timeout, on a transport error, on a status code
  outside 200 to 299 and on a body that is not JSON, and in no other case.
\<close>

lemma run_job_raises:
  "(\<exists>e. run_job post w payload t = Inl e) \<longleftrightarrow>
     (case post (base_url w @ ''/worker/run_job'') payload (t + 10) of
        Response code body \<Rightarrow> \<not> (200 \<le> code \<and> code < 300) \<or> body = None
      | Timeout \<Rightarrow> True
      | ConnectError \<Rightarrow> True)"
  by (simp add: run_job_def split: http_result.splits option.splits)




section \<open>The claims\<close>

text \<open>
  C1, as the specification has it: the job selected for a worker has its capability in
  the worker's capability set. The query of \<open>get_next_queued_job\<close> never looks at the
  capability: a worker that advertises only \<open>text\<close> is handed the queued \<open>image\<close> job.
\<close>

theorem select_next_job_ignores_capability:
  "select_next_job (example_worker ''w-txt'' [''text''])
       (example_db [example_job 1 ''image'' 0 1 QUEUED])
     = Some (example_job 1 ''image'' 0 1 QUEUED) \<and>
   capability (example_job 1 ''image'' 0 1 QUEUED)
     \<notin> set (capabilities (example_worker ''w-txt'' [''text'']))"
  by (simp add: eval_defs ex_defs)




text \<open>
  C3, as the specification has it: a status update whose expected status differs leaves
  the row unchanged, and a terminal job is never changed again. \<open>update_job\<close> has no
  expected status: failure handling of a COMPLETED job turns it into FAILED.
\<close>

theorem terminal_job_overwritten:
  "map status (jobs (example_db [example_job 1 ''image'' 0 1 COMPLETED])) = [COMPLETED] \<and>
   map status (jobs (snd (snd (handle_job_failure [] 9 (example_job 1 ''image'' 0 1 COMPLETED)
       ''DISPATCH_ERROR'' ''late'' (example_db [example_job 1 ''image'' 0 1 COMPLETED])))))
     = [FAILED] \<and>
   map error (jobs (snd (snd (handle_job_failure [] 9 (example_job 1 ''image'' 0 1 COMPLETED)
       ''DISPATCH_ERROR'' ''late'' (example_db [example_job 1 ''image'' 0 1 COMPLETED])))))
     = [Some (''DISPATCH_ERROR'', ''late'')]"
  by (simp add: eval_defs ex_defs)

text \<open>
  C3, amended: a status update is an unconditional write. \<open>update_job\<close> takes no
  expected status and returns nothing: given at least one column, it succeeds and every
  row of the id takes the new values whatever status it held, the other tables staying
  as they were. Failure handling therefore rewrites the job whatever its status, a
  terminal one included: status FAILED, \<open>ended_at\<close> and \<open>error\<close> are overwritten.
\<close>

theorem update_job_unconditional:
  "(kwargs \<noteq> [] \<longrightarrow>
      (\<exists>d'. update_job jid kwargs d = Inr d' \<and>
         jobs d' = map (\<lambda>r. if job_id r = jid then fold set_field kwargs r else r) (jobs d) \<and>
         artifacts d' = artifacts d \<and> usage_daily d' = usage_daily d \<and> users d' = users d)) \<and>
   (\<not> raises fs \<longrightarrow>
      jobs (snd (snd (handle_job_failure fs now j code message d)))
        = map (\<lambda>r. if job_id r = job_id j
                    then r\<lparr>status := FAILED, ended_at := Some now, error := Some (code, message)\<rparr>
                    else r) (jobs d))"
  by (simp add: update_job_def handle_job_failure_def call_update_job_def)

theorem update_job_unconditional_witness:
  "[Status COMPLETED, Ended_at 9] \<noteq> [] \<and> \<not> raises [] \<and>
   map status (jobs (example_db [example_job 1 ''image'' 0 1 CANCELLED])) = [CANCELLED] \<and>
   map_sum str (\<lambda>d'. map status (jobs d'))
       (update_job 1 [Status COMPLETED, Ended_at 9]
          (example_db [example_job 1 ''image'' 0 1 CANCELLED])) = Inr [COMPLETED] \<and>
   map status (jobs (snd (snd (handle_job_failure [] 9 (example_job 1 ''image'' 0 1 CANCELLED)
       ''DISPATCH_ERROR'' ''late'' (example_db [example_job 1 ''image'' 0 1 CANCELLED])))))
     = [FAILED]"
  using update_job_unconditional [where fs = "[]" and now = 9
      and j = "example_job 1 ''image'' 0 1 CANCELLED" and code = "''DISPATCH_ERROR''"
      and message = "''late''" and d = "example_db [example_job 1 ''image'' 0 1 CANCELLED]"
      and kwargs = "[Status COMPLETED, Ended_at 9]" and jid = 1]
  by (auto simp: raises_def ex_defs)

text \<open>
  C4, as the specification has it: a 2xx response whose \<open>status\<close> is \<open>failed\<close> makes the
  job FAILED and leaves the usage counters alone. The dispatcher passes every 2xx body to
  \<open>handle_job_completion\<close>, which never reads \<open>status\<close>: the job becomes COMPLETED, no
  error is recorded and the user is charged.
\<close>

theorem worker_reported_failure_completes:
  "map status (jobs (snd (snd (dispatch_job [] 5 (answers (Response 200 (Some failed_body)))
       (example_worker ''w-img'' [''image'']) (example_job 1 ''image'' 0 1 QUEUED)
       (example_db [example_job 1 ''image'' 0 1 QUEUED]))))) = [COMPLETED] \<and>
   map error (jobs (snd (snd (dispatch_job [] 5 (answers (Response 200 (Some failed_body)))
       (example_worker ''w-img'' [''image'']) (example_job 1 ''image'' 0 1 QUEUED)
       (example_db [example_job 1 ''image'' 0 1 QUEUED]))))) = [None] \<and>
   usage_daily (snd (snd (dispatch_job [] 5 (answers (Response 200 (Some failed_body)))
       (example_worker ''w-img'' [''image'']) (example_job 1 ''image'' 0 1 QUEUED)
       (example_db [example_job 1 ''image'' 0 1 QUEUED]))))
     = [\<lparr>usage_user_id = 1, usage_date = 0, tokens_used = Decimal 10 1, jobs_completed = 1\<rparr>]"
  by (simp add: eval_defs ex_defs failed_body_def)

text \<open>
  C5, as the specification has it: a request of capability \<open>video\<close> costs 2.0. The
  handler charges it 0.5.
\<close>

theorem video_cost_is_half:
  "map_sum str resp_cost_tokens (fst (create_job 100 video_request (example_db [])))
     = Inr (Decimal 5 1) \<and>
   \<not> dec_eq (Decimal 5 1) (Decimal 200 2)"
  by (simp add: eval_defs ex_defs video_request_def Let_def)

text \<open>
  C5, amended: the cost is a function of the \<open>capability\<close> entry of the request's
  \<open>params\<close>: 1.0 when the entry is \<open>image\<close> and 0.5 in every other case, \<open>text\<close>,
  \<open>audio\<close> and \<open>video\<close> included; the decimal has one fractional digit.
\<close>

theorem calculate_token_cost_values:
  "(map_of ps ''capability'' = Some (JStr ''image'') \<longrightarrow> calculate_token_cost ps = Decimal 10 1) \<and>
   (map_of ps ''capability'' \<noteq> Some (JStr ''image'') \<longrightarrow> calculate_token_cost ps = Decimal 5 1) \<and>
   (map_of ps ''capability'' \<in> {Some (JStr ''text''), Some (JStr ''audio''), Some (JStr ''video'')}
      \<longrightarrow> calculate_token_cost ps = Decimal 5 1) \<and>
   fractional_digits (calculate_token_cost ps) = 1"
  by (auto simp: calculate_token_cost_def)

theorem calculate_token_cost_values_witness:
  "calculate_token_cost [(''capability'', JStr ''video''), (''prompt'', JStr ''cat'')] = Decimal 5 1"
  using calculate_token_cost_values [of "[(''capability'', JStr ''video''), (''prompt'', JStr ''cat'')]"]
  by simp

text \<open>
  C6, as the specification has it: a request whose cost added to the day's usage exceeds
  the plan's limit fails with HTTP 402. The user has used the 20 tokens of the plan and
  asks for a job of 0.5: the day's usage row is a \<open>Record\<close>, the quota check reads
  \<open>tokens_used\<close> as an attribute of it, and the handler ends with \<open>AttributeError\<close>
  instead of the 402 that its own quota check raises. No job is created.
\<close>

theorem quota_check_raises_attribute_error:
  "map daily_token_limit (plans full_usage_db) = [20] \<and>
   get_usage 1 (date_of 100) full_usage_db
     = Record \<lparr>usage_user_id = 1, usage_date = 0, tokens_used = Decimal 200 1,
               jobs_completed = 20\<rparr> \<and>
   dec_less (dec_of_int 20)
            (dec_add (Decimal 200 1) (calculate_token_cost (req_params video_request))) \<and>
   create_job 100 video_request full_usage_db = (Inl AttributeError, full_usage_db) \<and>
   fst (create_job 100 video_request full_usage_db)
     \<noteq> Inl (HTTPException 402 ''Insufficient quota'')"
  by (simp add: eval_defs ex_defs video_request_def full_usage_db_def Let_def)

text \<open>
  C7, as the specification has it: the selected job has the highest priority among the
  QUEUED jobs that the worker is eligible for. The selection ranks all QUEUED jobs: the
  only queued job that the text worker can handle is the text job of priority 0, and the
  worker is handed the image job of priority 3.
\<close>

theorem select_next_job_not_among_eligible:
  "select_next_job (example_worker ''w-txt'' [''text''])
       (example_db [example_job 1 ''image'' 3 1 QUEUED, example_job 2 ''text'' 0 2 QUEUED])
     = Some (example_job 1 ''image'' 3 1 QUEUED) \<and>
   filter (\<lambda>j. status j = QUEUED \<and>
                capability j \<in> set (capabilities (example_worker ''w-txt'' [''text''])))
       (jobs (example_db [example_job 1 ''image'' 3 1 QUEUED, example_job 2 ''text'' 0 2 QUEUED]))
     = [example_job 2 ''text'' 0 2 QUEUED]"
  by (simp add: eval_defs ex_defs)

text \<open>
  C8, as the specification has it: a heartbeat keeps the status of a worker that is
  already registered. \<open>register_worker\<close> stores a new \<open>WorkerProxy\<close>, whose status is
  idle: a busy worker is idle after its heartbeat.
\<close>

theorem heartbeat_resets_busy_worker:
  "map (\<lambda>kv. proxy_status (snd kv))
       [(''w-img'', (example_worker ''w-img'' [''image''])\<lparr>proxy_status := busy\<rparr>)] = [busy] \<and>
   map (\<lambda>kv. proxy_status (snd kv))
       (register_worker 30 ''w-img'' ''http://localhost:9000'' [''image'']
          [(''w-img'', (example_worker ''w-img'' [''image''])\<lparr>proxy_status := busy\<rparr>)]) = [idle]"
  by (simp add: eval_defs ex_defs)

text \<open>
  C8, amended: registration replaces the record of the worker id by a fresh one, whose
  status is idle and whose last heartbeat is now, whether or not a record existed; the
  records of the other workers are kept.
\<close>

theorem register_worker_resets:
  "map_of (register_worker now wid url caps ws) wid = Some (WorkerProxy_init now wid url caps) \<and>
   proxy_status (WorkerProxy_init now wid url caps) = idle \<and>
   last_heartbeat (WorkerProxy_init now wid url caps) = now \<and>
   (\<forall>k. k \<noteq> wid \<longrightarrow> map_of (register_worker now wid url caps ws) k = map_of ws k)"
  by (simp add: register_worker_def map_of_dict_set_same map_of_dict_set_other WorkerProxy_init_def)

theorem register_worker_resets_witness:
  "''w-txt'' \<noteq> ''w-img'' \<and>
   map_of (register_worker 30 ''w-img'' ''http://localhost:9000'' [''image'']
             [(''w-txt'', example_worker ''w-txt'' [''text''])]) ''w-txt''
     = Some (example_worker ''w-txt'' [''text''])"
  using register_worker_resets [of 30 "''w-img''" "''http://localhost:9000''" "[''image'']"
          "[(''w-txt'', example_worker ''w-txt'' [''text''])]"]
  by simp




text \<open>
  C10: the row that \<open>create_artifact\<close> appends has the format \<open>png\<close>, whatever type and
  metadata the artifact declares.
\<close>

theorem create_artifact_format_png:
  "\<exists>r. artifacts (snd (create_artifact a d)) = artifacts d @ [r] \<and> format r = ''png'' \<and>
       artifact_type r = data_type a \<and> artifact_metadata r = data_metadata a"
  by (simp add: create_artifact_def Let_def)

theorem create_artifact_format_png_witness:
  "map format (artifacts (snd (create_artifact
       \<lparr>data_job_id = 1, data_type = JStr ''text'', data_path = JNull, data_url = JNull,
        data_metadata = JObj [(''content'', JStr ''hello'')]\<rparr> (example_db [])))) = [''png'']"
  using create_artifact_format_png [of
       "\<lparr>data_job_id = 1, data_type = JStr ''text'', data_path = JNull, data_url = JNull,
         data_metadata = JObj [(''content'', JStr ''hello'')]\<rparr>" "example_db []"]
  by (auto simp: example_db_def)

end
